theory Spec2Isabelle
  imports
    Main
    "HOL-Library.Word"
    "HOL-Library.Signed_Division"
    "HOL-Library.Product_Lexorder"
begin

section \<open>Machine types and time constants\<close>

text \<open>
  \<open>uint8\<close>, \<open>uint16\<close>, \<open>uint32\<close> and \<open>uint64\<close> are words, so every cast and every
  wrap-around of \<open>ServerAutoShutdown.cpp\<close> is the one the machine performs. \<open>time_t\<close> and
  the \<open>int\<close> fields of \<open>struct tm\<close> are mathematical integers: signed overflow is
  undefined in the source and no timestamp the clock can deliver comes near the ends of
  a 64-bit range.
\<close>

type_synonym uint8 = "8 word"
type_synonym uint16 = "16 word"
type_synonym uint32 = "32 word"
type_synonym uint64 = "64 word"
type_synonym time_t = int

text \<open>The time constants of the host's \<open>Common.h\<close>; they have type \<open>int\<close> there.\<close>

definition MINUTE :: int where
  "MINUTE = 60"

definition HOUR :: int where
  "HOUR = MINUTE * 60"

definition DAY :: int where
  "DAY = HOUR * 24"

definition WEEK :: int where
  "WEEK = DAY * 7"

section \<open>Broken-down time and the C library\<close>

text \<open>
  \<open>struct tm\<close>. The calendar date (\<open>tm_year\<close>, \<open>tm_mon\<close>, \<open>tm_mday\<close>) is held as one field,
  the number of the day counted from 1970-01-01: the source only ever adds a number of
  days to \<open>tm_mday\<close> and hands the structure to \<open>mktime\<close>, which carries an out-of-range
  day of the month into the month and the year. The other fields are the C ones.
\<close>

record tm =
  tm_sec :: int
  tm_min :: int
  tm_hour :: int
  tm_day :: int
  tm_wday :: int
  tm_isdst :: int

text \<open>
  What the file takes from outside: the C library's \<open>localtime_r\<close> and \<open>mktime\<close>, which
  follow the rules of the time zone the process runs in, and the host's
  \<open>GetEpochTime\<close>, a reading of the system clock. They are parameters of every function
  below; nothing is assumed about them, in particular not that \<open>mktime\<close> succeeds (it
  returns -1 when it does not) nor that the zone keeps one offset from UTC.
\<close>

record platform =
  localtime_r :: "time_t \<Rightarrow> tm"
  mktime :: "tm \<Rightarrow> time_t"
  GetEpochTime :: time_t

text \<open>
  \<open>Acore::Time::TimeBreakdown\<close> of the host's \<open>Timer.cpp\<close>: the local broken-down time of
  its argument, where the argument 0 stands for the current time.
\<close>

definition TimeBreakdown :: "platform \<Rightarrow> time_t \<Rightarrow> tm" where
  "TimeBreakdown p time = localtime_r p (if time = 0 then GetEpochTime p else time)"

section \<open>The next-occurrence calculator\<close>

text \<open>
  \<open>GetNextResetTime\<close>. The product \<open>DAY * restartDays\<close> is of an \<open>int\<close> and a \<open>uint32\<close>,
  so it is computed in \<open>uint32\<close> and wraps there; the sum with the \<open>time_t\<close> does not.
  The days are added to the result of \<open>mktime\<close>, as seconds.
\<close>

definition GetNextResetTime ::
  "platform \<Rightarrow> time_t \<Rightarrow> uint32 \<Rightarrow> uint8 \<Rightarrow> uint8 \<Rightarrow> uint8 \<Rightarrow> time_t" where
  "GetNextResetTime p time restartDays restartHour restartMinute restartSecond =
     (let timeLocal = TimeBreakdown p time;
          timeLocal = timeLocal\<lparr> tm_hour := uint restartHour,
                                 tm_min := uint restartMinute,
                                 tm_sec := uint restartSecond \<rparr>;
          midnightLocal = mktime p timeLocal
      in if restartDays > 1 \<or> midnightLocal \<le> time
         then midnightLocal + uint (word_of_int DAY * restartDays)
         else midnightLocal)"

text \<open>
  The test of \<open>GetNextWeekdayTime\<close> for "the time has already passed today": the three
  disjuncts of the source, the \<open>uint8\<close> operands promoted to \<open>int\<close>.
\<close>

definition timePassed :: "tm \<Rightarrow> uint8 \<Rightarrow> uint8 \<Rightarrow> uint8 \<Rightarrow> bool" where
  "timePassed timeLocal restartHour restartMinute restartSecond \<longleftrightarrow>
     tm_hour timeLocal > uint restartHour \<or>
     (tm_hour timeLocal = uint restartHour \<and> tm_min timeLocal > uint restartMinute) \<or>
     (tm_hour timeLocal = uint restartHour \<and> tm_min timeLocal = uint restartMinute \<and>
      tm_sec timeLocal \<ge> uint restartSecond)"

text \<open>
  The local variable \<open>daysUntil\<close> of \<open>GetNextWeekdayTime\<close> as it stands when the date is
  built. \<open>%\<close> is C's remainder, which truncates towards zero (\<open>smod\<close>).
\<close>

definition daysUntil :: "tm \<Rightarrow> int \<Rightarrow> uint8 \<Rightarrow> uint8 \<Rightarrow> uint8 \<Rightarrow> int" where
  "daysUntil timeLocal weekday restartHour restartMinute restartSecond =
     (let currentWeekday = tm_wday timeLocal;
          d = (weekday - currentWeekday + 7) smod 7
      in if d = 0 \<and> timePassed timeLocal restartHour restartMinute restartSecond
         then 7 else d)"

text \<open>
  \<open>GetNextWeekdayTime\<close>. The days are added to the date before \<open>mktime\<close>; the result
  of \<open>mktime\<close> is returned unchecked.
\<close>

definition GetNextWeekdayTime ::
  "platform \<Rightarrow> time_t \<Rightarrow> int \<Rightarrow> uint8 \<Rightarrow> uint8 \<Rightarrow> uint8 \<Rightarrow> time_t" where
  "GetNextWeekdayTime p now weekday restartHour restartMinute restartSecond =
     (let timeLocal = TimeBreakdown p now;
          d = daysUntil timeLocal weekday restartHour restartMinute restartSecond;
          timeLocal = timeLocal\<lparr> tm_day := tm_day timeLocal + d,
                                 tm_hour := uint restartHour,
                                 tm_min := uint restartMinute,
                                 tm_sec := uint restartSecond \<rparr>
      in mktime p timeLocal)"

section \<open>A C library for a given time zone\<close>

text \<open>
  To run the code at a concrete instant the platform must be concrete. A zone is given
  as the tz database gives it: a rule in force at first, and the later rules, each with
  the instant (UTC) from which it applies, its offset from UTC in seconds and its
  daylight-saving flag.
\<close>

record rule =
  since :: time_t
  gmtoff :: int
  isdst :: int

record zone =
  initialRule :: rule
  transitions :: "rule list"

text \<open>The local broken-down time of an instant under a given offset and flag.\<close>

definition localAt :: "int \<Rightarrow> int \<Rightarrow> time_t \<Rightarrow> tm" where
  "localAt off dst t =
     (let l = t + off in
      \<lparr> tm_sec = l mod 60,
        tm_min = (l div 60) mod 60,
        tm_hour = (l div 3600) mod 24,
        tm_day = l div 86400,
        tm_wday = (l div 86400 + 4) mod 7,
        tm_isdst = dst \<rparr>)"

text \<open>
  The local time a \<open>struct tm\<close> denotes, in seconds: \<open>mktime\<close> accepts fields outside their
  ranges and carries them, and it ignores \<open>tm_wday\<close>. 1970-01-01 was a Thursday.
\<close>

definition secondsOf :: "tm \<Rightarrow> int" where
  "secondsOf t = tm_day t * 86400 + tm_hour t * 3600 + tm_min t * 60 + tm_sec t"

fun ruleAt :: "rule \<Rightarrow> rule list \<Rightarrow> time_t \<Rightarrow> rule" where
  "ruleAt r [] t = r"
| "ruleAt r (n # ns) t = (if since n \<le> t then ruleAt n ns t else r)"

definition zoneLocaltime :: "zone \<Rightarrow> time_t \<Rightarrow> tm" where
  "zoneLocaltime z t =
     (let r = ruleAt (initialRule z) (transitions z) t
      in localAt (gmtoff r) (isdst r) t)"

text \<open>
  The instants that have a given local time, each with the flag of its rule: under
  each rule the local time less the rule's offset, if that instant lies in the span of
  the rule.
\<close>

fun instants :: "bool \<Rightarrow> rule \<Rightarrow> rule list \<Rightarrow> int \<Rightarrow> (time_t \<times> int) list" where
  "instants first r [] l =
     (let t = l - gmtoff r
      in if first \<or> since r \<le> t then [(t, isdst r)] else [])"
| "instants first r (n # ns) l =
     (let t = l - gmtoff r
      in (if (first \<or> since r \<le> t) \<and> t < since n then [(t, isdst r)] else [])
         @ instants False n ns l)"

text \<open>
  \<open>mktime\<close>: the instant that has the local time of the structure; of two such instants
  (a local time that a transition repeats) the one whose flag agrees with \<open>tm_isdst\<close>;
  -1 when no instant has it (a local time that a transition skips). C libraries differ
  in how they treat a \<open>tm_isdst\<close> that disagrees with the zone; the evaluations below
  are at local times that exactly one instant has, with the flag of that instant, and
  at one that no instant has.
\<close>

definition zoneMktime :: "zone \<Rightarrow> tm \<Rightarrow> time_t" where
  "zoneMktime z t =
     (let c = instants True (initialRule z) (transitions z) (secondsOf t);
          agreeing = filter (\<lambda>(i, dst). tm_isdst t < 0 \<or> (0 < dst) = (0 < tm_isdst t)) c
      in case agreeing of
           (i, dst) # rest \<Rightarrow> i
         | [] \<Rightarrow> (case c of (i, dst) # rest \<Rightarrow> i | [] \<Rightarrow> -1))"

definition libc :: "zone \<Rightarrow> time_t \<Rightarrow> platform" where
  "libc z clock =
     \<lparr> localtime_r = zoneLocaltime z, mktime = zoneMktime z, GetEpochTime = clock \<rparr>"

text \<open>
  Four zones of the tz database, as far as the evaluations below reach. UTC;
  America/New_York from 2023-03-12 (EDT, then EST from 2023-11-05 06:00:00 UTC, EDT
  from 2024-03-10 07:00:00 UTC, EST from 2024-11-03 06:00:00 UTC); Asia/Almaty, at +06
  until 2024-02-29 18:00:00 UTC and at +05 from then on; America/Nuuk, at -03 from
  2022-10-30 and at -02 from 2023-03-26 01:00:00 UTC, both as standard time.
\<close>

definition utc :: zone where
  "utc = \<lparr> initialRule = \<lparr> since = 0, gmtoff = 0, isdst = 0 \<rparr>, transitions = [] \<rparr>"

definition newYork :: zone where
  "newYork =
     \<lparr> initialRule = \<lparr> since = 1678604400, gmtoff = - 14400, isdst = 1 \<rparr>,
       transitions = [\<lparr> since = 1699164000, gmtoff = - 18000, isdst = 0 \<rparr>,
                      \<lparr> since = 1710054000, gmtoff = - 14400, isdst = 1 \<rparr>,
                      \<lparr> since = 1730613600, gmtoff = - 18000, isdst = 0 \<rparr>] \<rparr>"

definition almaty :: zone where
  "almaty =
     \<lparr> initialRule = \<lparr> since = 1099162800, gmtoff = 21600, isdst = 0 \<rparr>,
       transitions = [\<lparr> since = 1709229600, gmtoff = 18000, isdst = 0 \<rparr>] \<rparr>"

definition nuuk :: zone where
  "nuuk =
     \<lparr> initialRule = \<lparr> since = 1667091600, gmtoff = - 10800, isdst = 0 \<rparr>,
       transitions = [\<lparr> since = 1679792400, gmtoff = - 7200, isdst = 0 \<rparr>] \<rparr>"

section \<open>Reading the configuration\<close>

text \<open>
  \<open>Acore::Tokenize (str, sep, keepEmpty)\<close> of the host's \<open>Tokenize.h\<close>: the pieces of
  \<open>str\<close> between occurrences of \<open>sep\<close>, in order; the empty pieces are dropped unless
  \<open>keepEmpty\<close> is set.
\<close>

fun pieces :: "char \<Rightarrow> string \<Rightarrow> string list" where
  "pieces sep [] = [[]]"
| "pieces sep (c # cs) =
     (if c = sep then [] # pieces sep cs
      else (case pieces sep cs of
              [] \<Rightarrow> [[c]]
            | t # ts \<Rightarrow> (c # t) # ts))"

definition Tokenize :: "string \<Rightarrow> char \<Rightarrow> bool \<Rightarrow> string list" where
  "Tokenize str sep keepEmpty = filter (\<lambda>t. keepEmpty \<or> t \<noteq> []) (pieces sep str)"

text \<open>
  \<open>Acore::StringTo<T>\<close> of the host's \<open>StringConvert.h\<close> for an unsigned integer type of
  \<open>LENGTH('a)\<close> bits, in base 10 (\<open>std::from_chars\<close>): the whole text must be decimal
  digits, at least one, with no sign and no blank, and the number must fit the type;
  anything else is the empty optional.
\<close>

definition isDigit :: "char \<Rightarrow> bool" where
  "isDigit c \<longleftrightarrow> 48 \<le> (of_char c :: int) \<and> (of_char c :: int) \<le> 57"

fun digits :: "int \<Rightarrow> string \<Rightarrow> int option" where
  "digits acc [] = Some acc"
| "digits acc (c # cs) =
     (if isDigit c then digits (acc * 10 + (of_char c - 48)) cs else None)"

definition StringTo :: "string \<Rightarrow> 'a::len word option" where
  "StringTo str =
     (if str = [] then None
      else (case digits 0 str of
              None \<Rightarrow> None
            | Some n \<Rightarrow> if n < 2 ^ LENGTH('a) then Some (word_of_int n) else None))"

text \<open>
  The options the module reads through \<open>sConfigMgr->GetOption\<close>, with the C++ type each
  is read at. The defaults are the configuration manager's business.
\<close>

record config =
  Enabled :: bool
  Time :: string
  Weekday :: int
  EveryDays :: uint32
  PreAnnounceSeconds :: uint32
  Action :: string
  StartEvents :: string

section \<open>The module and its collaborators\<close>

datatype ShutdownMask = SHUTDOWN_MASK_RESTART | SHUTDOWN_MASK_IDLE

text \<open>
  A pending task of the scheduler: the delay it was scheduled with, in seconds, and the
  value of \<open>preAnnounceSeconds\<close> its closure captured.
\<close>

record task =
  delay :: uint32
  announce :: uint32

text \<open>
  What \<open>Init\<close> reads and writes: the two members of \<open>ServerAutoShutdown\<close>, the pending
  tasks of the file's \<open>scheduler\<close>, whether the world has a shutdown in progress
  (\<open>sWorld->ShutdownCancel\<close> clears it), the number of entries of the table
  \<open>sGameEventMgr->GetEventMap()\<close> returns, and the events handed to
  \<open>sGameEventMgr->StartEvent\<close>, in call order. \<open>StartEvent\<close> takes its event as a
  \<open>uint16\<close> (the host's \<open>GameEventMgr.h\<close>); what it does with it is the host's business.
  Log lines are not modelled.
\<close>

record module =
  isEnableModule :: bool
  shutdownMask :: ShutdownMask
  scheduler :: "task list"
  worldShutdown :: bool
  eventCount :: nat
  startedEvents :: "uint16 list"

text \<open>
  The ways \<open>Init\<close> reports a configuration it refuses (its \<open>LOG_ERROR\<close> lines), and the
  two undefined behaviours of the file: \<open>*\<close> applied to an empty optional, and
  \<open>events[eventId]\<close> past the end of the table.
\<close>

datatype config_error =
  IncorrectTime | IncorrectDay | IncorrectHour | IncorrectMinute | IncorrectSecond

datatype fault = EmptyOptional | OutOfRange

definition deref :: "'a option \<Rightarrow> fault + 'a" where
  "deref x = (case x of None \<Rightarrow> Inl EmptyOptional | Some v \<Rightarrow> Inr v)"

section \<open>Starting the configured events\<close>

text \<open>
  The loop of \<open>StartPersistentGameEvents\<close> over the tokens: the token is converted and
  the optional dereferenced, \<open>StartEvent\<close> is called with the event narrowed to
  \<open>uint16\<close>, and the table is indexed with the \<open>uint32\<close> for the log line.
\<close>

fun startEvents :: "string list \<Rightarrow> module \<Rightarrow> fault + module" where
  "startEvents [] st = Inr st"
| "startEvents (token # tokens) st =
     (if token = [] then startEvents tokens st
      else (case deref (StringTo token :: uint32 option) of
              Inl f \<Rightarrow> Inl f
            | Inr eventId \<Rightarrow>
                (let st = st\<lparr> startedEvents := startedEvents st @ [ucast eventId] \<rparr>
                 in if uint eventId < int (eventCount st) then startEvents tokens st
                    else Inl OutOfRange)))"

definition StartPersistentGameEvents :: "string \<Rightarrow> module \<Rightarrow> fault + module" where
  "StartPersistentGameEvents eventList st =
     startEvents (Tokenize eventList CHR '' '' False) st"

section \<open>Init\<close>

text \<open>
  The locals of \<open>Init\<close> once the next occurrence is computed (line 141 of the source).
\<close>

record occurrence =
  weekday :: int
  restartDays :: uint32
  restartHour :: uint8
  restartMinute :: uint8
  restartSecond :: uint8
  nextResetTime :: uint64

text \<open>
  \<open>CheckTime\<close>: every listed token converts to a \<open>uint8\<close>. \<open>tokens.at\<close> is in range, as
  the list has three elements when the lambda is called.
\<close>

definition CheckTime :: "string list \<Rightarrow> nat list \<Rightarrow> bool" where
  "CheckTime tokens index =
     list_all (\<lambda>itr. (StringTo (tokens ! itr) :: uint8 option) \<noteq> None) index"

text \<open>
  Lines 92 to 141: the time string is split and converted, the recurrence is chosen and
  the next occurrence computed. \<open>Inl\<close> is one of the three places where the source logs
  an error, clears \<open>_isEnableModule\<close> and returns.
\<close>

definition readOccurrence ::
  "platform \<Rightarrow> config \<Rightarrow> time_t \<Rightarrow> config_error + fault + occurrence" where
  "readOccurrence p cfg nowTime =
     (let configTime = Time cfg;
          tokens = Tokenize configTime CHR '':'' False
      in if length tokens \<noteq> 3 then Inl IncorrectTime
         else if \<not> CheckTime tokens [0, 1, 2] then Inl IncorrectTime
         else
           (let wd = Weekday cfg; days = EveryDays cfg
            in case (deref (StringTo (tokens ! 0)), deref (StringTo (tokens ! 1)),
                     deref (StringTo (tokens ! 2))) of
                 (Inr h, Inr m, Inr s) \<Rightarrow>
                   (if wd \<ge> 0 \<and> wd \<le> 6
                    then Inr (Inr \<lparr> weekday = wd, restartDays = days, restartHour = h,
                                    restartMinute = m, restartSecond = s,
                                    nextResetTime =
                                      word_of_int (GetNextWeekdayTime p nowTime wd h m s) \<rparr>)
                    else if days < 1 \<or> days > 365 then Inl IncorrectDay
                    else Inr (Inr \<lparr> weekday = wd, restartDays = days, restartHour = h,
                                      restartMinute = m, restartSecond = s,
                                      nextResetTime =
                                        word_of_int (GetNextResetTime p nowTime days h m s) \<rparr>))
               | _ \<Rightarrow> Inr (Inl EmptyOptional)))"

text \<open>
  Lines 143 to 162: the chain of range checks. Each branch logs and clears
  \<open>_isEnableModule\<close>; none of them returns.
\<close>

definition rangeError :: "occurrence \<Rightarrow> config_error option" where
  "rangeError oc =
     (if restartDays oc < 1 \<or> restartDays oc > 365 then Some IncorrectDay
      else if restartHour oc > 23 then Some IncorrectHour
      else if restartMinute oc \<ge> 60 then Some IncorrectMinute
      else if restartSecond oc \<ge> 60 then Some IncorrectSecond
      else None)"

text \<open>
  The values \<open>Init\<close> derives and logs (lines 164 to 203), under the names of its locals.
  \<open>planResetTime\<close> is the final value of \<open>nextResetTime\<close>. In the specification's words
  it is nextShutdownAt, \<open>timeToPreAnnounce\<close> is nextPreAnnounceAt, \<open>diffToShutdown\<close> is
  secondsUntilShutdown, \<open>diffToPreAnnounce\<close> is secondsUntilPreAnnounce and
  \<open>preAnnounceSeconds\<close> is effectivePreAnnounceSeconds.
\<close>

record plan =
  planResetTime :: uint64
  timeToPreAnnounce :: uint32
  diffToShutdown :: uint32
  diffToPreAnnounce :: uint32
  preAnnounceSeconds :: uint32

text \<open>
  \<open>nextResetTime - static_cast<uint32>(nowTime)\<close>, stored in a \<open>uint32\<close>: the
  subtraction is in \<open>uint64\<close>, the result is cut to 32 bits.
\<close>

definition remaining :: "uint64 \<Rightarrow> time_t \<Rightarrow> uint32" where
  "remaining nrt nowTime = ucast (nrt - ucast (word_of_int nowTime :: uint32))"

text \<open>
  Lines 164 to 174: an occurrence less than 10 seconds away is moved one period on.
  \<open>WEEK\<close> is an \<open>int\<close>; \<open>DAY * restartDays\<close> is a \<open>uint32\<close>.
\<close>

definition nextPeriod :: "occurrence \<Rightarrow> time_t \<Rightarrow> uint64" where
  "nextPeriod oc nowTime =
     (if remaining (nextResetTime oc) nowTime < 10
      then (if weekday oc \<ge> 0 \<and> weekday oc \<le> 6
            then nextResetTime oc + word_of_int WEEK
            else nextResetTime oc + ucast (word_of_int DAY * restartDays oc :: uint32))
      else nextResetTime oc)"

text \<open>Lines 187 to 192: a lead time of more than a day becomes an hour.\<close>

definition clampPreAnnounce :: "uint32 \<Rightarrow> uint32" where
  "clampPreAnnounce p = (if p > word_of_int DAY then word_of_int HOUR else p)"

definition buildPlan :: "occurrence \<Rightarrow> time_t \<Rightarrow> uint32 \<Rightarrow> plan" where
  "buildPlan oc nowTime configured =
     (let nrt = nextPeriod oc nowTime;
          diff = remaining nrt nowTime;
          pre = clampPreAnnounce configured;
          timeToPre = (ucast nrt :: uint32) - pre;
          diffToPre = timeToPre - word_of_int nowTime
      in if diff < pre
         then \<lparr> planResetTime = nrt, timeToPreAnnounce = word_of_int nowTime + 1,
                diffToShutdown = diff, diffToPreAnnounce = 1, preAnnounceSeconds = diff \<rparr>
         else \<lparr> planResetTime = nrt, timeToPreAnnounce = timeToPre,
                diffToShutdown = diff, diffToPreAnnounce = diffToPre,
                preAnnounceSeconds = pre \<rparr>)"

text \<open>
  Lines 179 to 231, the effects: the pending tasks are cancelled, a shutdown in progress
  is cancelled, the events are started, the mask is chosen and the pre-announce task is
  scheduled.
\<close>

definition arm :: "config \<Rightarrow> plan \<Rightarrow> module \<Rightarrow> fault + module" where
  "arm cfg pl st =
     (let st = st\<lparr> scheduler := [] \<rparr>;
          st = st\<lparr> worldShutdown := False \<rparr>
      in case StartPersistentGameEvents (StartEvents cfg) st of
           Inl f \<Rightarrow> Inl f
         | Inr st \<Rightarrow>
             (let st = st\<lparr> shutdownMask :=
                           (if Action cfg = ''shutdown'' then SHUTDOWN_MASK_IDLE
                            else SHUTDOWN_MASK_RESTART) \<rparr>
              in Inr (st\<lparr> scheduler := scheduler st @
                           [\<lparr> delay = diffToPreAnnounce pl,
                              announce = preAnnounceSeconds pl \<rparr>] \<rparr>)))"

definition Init :: "platform \<Rightarrow> config \<Rightarrow> time_t \<Rightarrow> module \<Rightarrow> fault + module" where
  "Init p cfg nowTime st =
     (let st = st\<lparr> isEnableModule := Enabled cfg \<rparr>
      in if \<not> isEnableModule st then Inr st
         else (case readOccurrence p cfg nowTime of
                 Inl e \<Rightarrow> Inr (st\<lparr> isEnableModule := False \<rparr>)
               | Inr (Inl f) \<Rightarrow> Inl f
               | Inr (Inr oc) \<Rightarrow>
                   (let st = (case rangeError oc of
                                Some e \<Rightarrow> st\<lparr> isEnableModule := False \<rparr>
                              | None \<Rightarrow> st)
                    in arm cfg (buildPlan oc nowTime (PreAnnounceSeconds cfg)) st)))"

section \<open>Facts about the event loop\<close>

lemma startEvents_frame:
  assumes "startEvents tokens st = Inr st'"
  shows "\<exists>evs. st' = st\<lparr> startedEvents := evs \<rparr>"
  using assms
proof (induction tokens arbitrary: st)
  case Nil
  then have "st' = st\<lparr> startedEvents := startedEvents st \<rparr>"
    by simp
  then show ?case ..
next
  case (Cons token tokens)
  show ?case
  proof (cases "token = []")
    case True
    with Cons.prems have "startEvents tokens st = Inr st'"
      by simp
    then show ?thesis
      by (rule Cons.IH)
  next
    case False
    with Cons.prems obtain eventId :: uint32 where
      "startEvents tokens (st\<lparr> startedEvents := startedEvents st @ [ucast eventId] \<rparr>) = Inr st'"
      by (auto simp add: deref_def Let_def split: option.splits if_splits)
    from Cons.IH [OF this] obtain evs where
      "st' = st\<lparr> startedEvents := startedEvents st @ [ucast eventId] \<rparr>\<lparr> startedEvents := evs \<rparr>"
      ..
    then have "st' = st\<lparr> startedEvents := evs \<rparr>"
      by simp
    then show ?thesis ..
  qed
qed

lemma startEvents_startable:
  assumes "\<forall>token \<in> set tokens. token \<noteq> [] \<longrightarrow>
      (\<exists>eventId. StringTo token = Some eventId \<and> uint (eventId :: uint32) < int (eventCount st))"
  shows "startEvents tokens st =
     Inr (st\<lparr> startedEvents := startedEvents st @
            map (\<lambda>token. ucast (the (StringTo token :: uint32 option)))
              (filter (\<lambda>token. token \<noteq> []) tokens) \<rparr>)"
  using assms
proof (induction tokens arbitrary: st)
  case Nil
  show ?case by simp
next
  case (Cons token tokens)
  show ?case
  proof (cases "token = []")
    case True
    with Cons show ?thesis by simp
  next
    case False
    with Cons.prems obtain eventId :: uint32 where
      e: "StringTo token = Some eventId" "uint eventId < int (eventCount st)"
      by auto
    define st1 where "st1 = st\<lparr> startedEvents := startedEvents st @ [ucast eventId] \<rparr>"
    have c: "eventCount st1 = eventCount st"
      by (simp add: st1_def)
    from Cons.prems have "\<forall>token \<in> set tokens. token \<noteq> [] \<longrightarrow>
        (\<exists>eventId. StringTo token = Some eventId \<and> uint (eventId :: uint32) < int (eventCount st1))"
      unfolding c by simp
    from Cons.IH [OF this] have "startEvents tokens st1 =
       Inr (st1\<lparr> startedEvents := startedEvents st1 @
            map (\<lambda>token. ucast (the (StringTo token :: uint32 option)))
              (filter (\<lambda>token. token \<noteq> []) tokens) \<rparr>)" .
    with False e show ?thesis
      by (simp add: deref_def st1_def)
  qed
qed

lemma startEvents_parsed:
  assumes "\<forall>token \<in> set tokens. token \<noteq> [] \<longrightarrow> (StringTo token :: uint32 option) \<noteq> None"
  shows "startEvents tokens st \<noteq> Inl EmptyOptional"
  using assms
proof (induction tokens arbitrary: st)
  case Nil
  show ?case by simp
next
  case (Cons token tokens)
  from Cons.prems have rest: "\<forall>token \<in> set tokens. token \<noteq> [] \<longrightarrow>
      (StringTo token :: uint32 option) \<noteq> None"
    by simp
  show ?case
  proof (cases "token = []")
    case True
    with Cons.IH [OF rest] show ?thesis by simp
  next
    case False
    with Cons.prems obtain eventId :: uint32 where e: "StringTo token = Some eventId"
      by auto
    show ?thesis
      using False e Cons.IH [OF rest] by (simp add: deref_def Let_def)
  qed
qed

lemma startEvents_unparsed:
  assumes "\<exists>token \<in> set tokens. token \<noteq> [] \<and> (StringTo token :: uint32 option) = None"
  shows "\<exists>f. startEvents tokens st = Inl f"
  using assms
proof (induction tokens arbitrary: st)
  case Nil
  then show ?case by simp
next
  case (Cons token tokens)
  show ?case
  proof (cases "token \<noteq> [] \<and> (StringTo token :: uint32 option) = None")
    case True
    then show ?thesis by (simp add: deref_def)
  next
    case False
    with Cons.prems have "\<exists>token \<in> set tokens. token \<noteq> [] \<and>
        (StringTo token :: uint32 option) = None"
      by auto
    from Cons.IH [OF this] show ?thesis
      by (auto simp add: deref_def Let_def split: option.splits)
  qed
qed

lemma startEvents_first_unparsed:
  assumes "\<forall>token \<in> set before. token \<noteq> [] \<longrightarrow>
      (\<exists>eventId. StringTo token = Some eventId \<and> uint (eventId :: uint32) < int (eventCount st))"
    and "bad \<noteq> []" "(StringTo bad :: uint32 option) = None"
  shows "startEvents (before @ bad # after) st = Inl EmptyOptional"
  using assms(1)
proof (induction before arbitrary: st)
  case Nil
  from assms(2,3) show ?case by (simp add: deref_def)
next
  case (Cons token before)
  show ?case
  proof (cases "token = []")
    case True
    with Cons show ?thesis by simp
  next
    case False
    with Cons.prems obtain eventId :: uint32 where
      e: "StringTo token = Some eventId" "uint eventId < int (eventCount st)"
      by auto
    define st1 where "st1 = st\<lparr> startedEvents := startedEvents st @ [ucast eventId] \<rparr>"
    have c: "eventCount st1 = eventCount st"
      by (simp add: st1_def)
    from Cons.prems have "\<forall>token \<in> set before. token \<noteq> [] \<longrightarrow>
        (\<exists>eventId. StringTo token = Some eventId \<and> uint (eventId :: uint32) < int (eventCount st1))"
      unfolding c by simp
    from Cons.IH [OF this] have "startEvents (before @ bad # after) st1 = Inl EmptyOptional" .
    with False e show ?thesis
      by (simp add: deref_def st1_def)
  qed
qed

section \<open>Facts about local time under one offset\<close>

lemma recombine:
  fixes l :: int
  assumes "l = 60 * m + s" "m = 60 * h + mi" "h = 24 * d + hr"
  shows "d * 86400 + hr * 3600 + mi * 60 + s = l"
  using assms by simp

lemma split_seconds:
  fixes l :: int
  shows "l div 86400 * 86400 + (l div 3600) mod 24 * 3600 + (l div 60) mod 60 * 60 + l mod 60 = l"
proof -
  have a: "(l div 60) div 60 = l div 3600"
    by (simp add: zdiv_zmult2_eq [symmetric])
  have b: "(l div 3600) div 24 = l div 86400"
    by (simp add: zdiv_zmult2_eq [symmetric])
  have c: "l = 60 * (l div 60) + l mod 60"
    by (rule mult_div_mod_eq [symmetric])
  have "l div 60 = 60 * ((l div 60) div 60) + (l div 60) mod 60"
    by (rule mult_div_mod_eq [symmetric])
  then have d: "l div 60 = 60 * (l div 3600) + (l div 60) mod 60"
    by (simp only: a)
  have "l div 3600 = 24 * ((l div 3600) div 24) + (l div 3600) mod 24"
    by (rule mult_div_mod_eq [symmetric])
  then have e: "l div 3600 = 24 * (l div 86400) + (l div 3600) mod 24"
    by (simp only: b)
  show ?thesis by (rule recombine [OF c d e])
qed

lemma localAt_cases:
  obtains d h m s where
    "0 \<le> h" "h < 24" "0 \<le> m" "m < 60" "0 \<le> s" "s < 60"
    "t = d * 86400 + h * 3600 + m * 60 + s - off"
    "localAt off dst t =
       \<lparr> tm_sec = s, tm_min = m, tm_hour = h, tm_day = d, tm_wday = (d + 4) mod 7,
         tm_isdst = dst \<rparr>"
proof -
  define l where "l = t + off"
  define d where "d = l div 86400"
  define h where "h = (l div 3600) mod 24"
  define m where "m = (l div 60) mod 60"
  define s where "s = l mod 60"
  have rng: "0 \<le> h" "h < 24" "0 \<le> m" "m < 60" "0 \<le> s" "s < 60"
    by (simp_all add: h_def m_def s_def)
  have "d * 86400 + h * 3600 + m * 60 + s = l"
    unfolding d_def h_def m_def s_def by (rule split_seconds)
  then have t: "t = d * 86400 + h * 3600 + m * 60 + s - off"
    by (simp add: l_def)
  have "localAt off dst t =
       \<lparr> tm_sec = s, tm_min = m, tm_hour = h, tm_day = d, tm_wday = (d + 4) mod 7,
         tm_isdst = dst \<rparr>"
    by (simp add: localAt_def Let_def l_def d_def h_def m_def s_def)
  with rng t show thesis
    by (rule that)
qed

lemma tod_le_iff:
  fixes h m s h' m' s' :: int
  assumes "0 \<le> m" "m < 60" "0 \<le> s" "s < 60" "0 \<le> m'" "m' < 60" "0 \<le> s'" "s' < 60"
  shows "(h, m, s) \<le> (h', m', s') \<longleftrightarrow> h * 3600 + m * 60 + s \<le> h' * 3600 + m' * 60 + s'"
  using assms by (auto simp add: less_eq_prod_def)

lemma valid_time_uint:
  fixes rh rm rs :: uint8
  assumes "rh \<le> 23" "rm \<le> 59" "rs \<le> 59"
  shows "0 \<le> uint rh" "uint rh < 24" "0 \<le> uint rm" "uint rm < 60"
        "0 \<le> uint rs" "uint rs < 60"
  using assms by (simp_all add: word_le_def)

lemma smod_nonneg:
  fixes a :: int
  assumes "0 \<le> a"
  shows "a smod 7 = a mod 7"
  using assms by (simp add: smod_int_alt_def sgn_if)

lemma timePassed_iff:
  assumes "0 \<le> m" "m < 60" "0 \<le> s" "s < 60" "rm \<le> 59" "rs \<le> 59"
  shows "timePassed \<lparr> tm_sec = s, tm_min = m, tm_hour = h, tm_day = d, tm_wday = w,
                      tm_isdst = dst \<rparr> rh rm rs
     \<longleftrightarrow> uint rh * 3600 + uint rm * 60 + uint rs \<le> h * 3600 + m * 60 + s"
proof -
  have v: "0 \<le> uint rm" "uint rm < 60" "0 \<le> uint rs" "uint rs < 60"
    using assms(5,6) by (simp_all add: word_le_def)
  have "timePassed \<lparr> tm_sec = s, tm_min = m, tm_hour = h, tm_day = d, tm_wday = w,
                     tm_isdst = dst \<rparr> rh rm rs
     \<longleftrightarrow> (uint rh, uint rm, uint rs) \<le> (h, m, s)"
    by (auto simp add: timePassed_def less_eq_prod_def)
  also have "\<dots> \<longleftrightarrow> uint rh * 3600 + uint rm * 60 + uint rs \<le> h * 3600 + m * 60 + s"
    by (rule tod_le_iff [OF v assms(1-4)])
  finally show ?thesis .
qed

section \<open>Facts about Init\<close>

lemma days_in_seconds:
  fixes n :: uint32
  assumes "n \<le> 49710"
  shows "uint (86400 * n) = 86400 * uint n"
proof -
  have le: "uint n \<le> 49710"
    using assms by (simp add: word_le_def)
  have "uint (86400 * n) = (86400 * uint n) mod 2 ^ 32"
    by (simp add: uint_word_ariths)
  moreover have "0 \<le> 86400 * uint n" "86400 * uint n < 2 ^ 32"
    using le by simp_all
  ultimately show ?thesis
    by (simp only: mod_pos_pos_trivial)
qed

lemma ucast_days:
  fixes d :: uint32
  assumes "d \<le> 365"
  shows "(ucast (86400 * d) :: uint64) = 86400 * ucast d"
proof -
  from assms have "d \<le> 49710"
    by (simp add: word_le_def)
  then have "uint (86400 * d) = 86400 * uint d"
    by (rule days_in_seconds)
  then have "(ucast (86400 * d) :: uint64) = word_of_int (86400 * uint d)"
    by (simp only: ucast_eq)
  also have "\<dots> = word_of_int 86400 * word_of_int (uint d)"
    by (simp only: wi_hom_mult)
  also have "\<dots> = 86400 * ucast d"
    by simp
  finally show ?thesis .
qed

lemma readOccurrence_fields:
  assumes "readOccurrence p cfg now = Inr (Inr oc)"
  shows "weekday oc = Weekday cfg" "restartDays oc = EveryDays cfg"
    "(0 \<le> Weekday cfg \<and> Weekday cfg \<le> 6) \<or> (EveryDays cfg \<noteq> 0 \<and> EveryDays cfg \<le> 365)"
  using assms
  by (auto simp add: readOccurrence_def Let_def not_less
      split: if_splits sum.splits prod.splits)

lemma arm_result:
  assumes "arm cfg pl st = Inr st'"
  shows "scheduler st' = [\<lparr> delay = diffToPreAnnounce pl, announce = preAnnounceSeconds pl \<rparr>]"
    "isEnableModule st' = isEnableModule st" "worldShutdown st' = False"
proof -
  obtain st1 where
    s: "startEvents (Tokenize (StartEvents cfg) CHR '' '' False)
          (st\<lparr> scheduler := [], worldShutdown := False \<rparr>) = Inr st1"
    and r: "st' = st1\<lparr> shutdownMask :=
                 (if Action cfg = ''shutdown'' then SHUTDOWN_MASK_IDLE
                  else SHUTDOWN_MASK_RESTART),
               scheduler := scheduler st1 @
                 [\<lparr> delay = diffToPreAnnounce pl, announce = preAnnounceSeconds pl \<rparr>] \<rparr>"
    using assms
    by (auto simp add: arm_def StartPersistentGameEvents_def Let_def split: sum.splits)
  from startEvents_frame [OF s] obtain evs where
    "st1 = st\<lparr> scheduler := [], worldShutdown := False, startedEvents := evs \<rparr>"
    by auto
  then show "scheduler st' = [\<lparr> delay = diffToPreAnnounce pl, announce = preAnnounceSeconds pl \<rparr>]"
    "isEnableModule st' = isEnableModule st" "worldShutdown st' = False"
    by (simp_all add: r)
qed

lemma arm_returns:
  assumes "\<forall>token \<in> set (Tokenize (StartEvents cfg) CHR '' '' False). token \<noteq> [] \<longrightarrow>
      (\<exists>eventId. StringTo token = Some eventId \<and> uint (eventId :: uint32) < int (eventCount st))"
  shows "arm cfg pl st =
     Inr (st\<lparr> shutdownMask :=
                (if Action cfg = ''shutdown'' then SHUTDOWN_MASK_IDLE
                 else SHUTDOWN_MASK_RESTART),
              scheduler := [\<lparr> delay = diffToPreAnnounce pl, announce = preAnnounceSeconds pl \<rparr>],
              worldShutdown := False,
              startedEvents := startedEvents st @
                map (\<lambda>token. ucast (the (StringTo token :: uint32 option)))
                  (filter (\<lambda>token. token \<noteq> []) (Tokenize (StartEvents cfg) CHR '' '' False)) \<rparr>)"
proof -
  define st0 where "st0 = st\<lparr> scheduler := [], worldShutdown := False \<rparr>"
  have "eventCount st0 = eventCount st"
    by (simp add: st0_def)
  with assms have "\<forall>token \<in> set (Tokenize (StartEvents cfg) CHR '' '' False). token \<noteq> [] \<longrightarrow>
      (\<exists>eventId. StringTo token = Some eventId \<and> uint (eventId :: uint32) < int (eventCount st0))"
    by simp
  from startEvents_startable [OF this]
  show ?thesis
    by (simp add: arm_def StartPersistentGameEvents_def Let_def st0_def)
qed

lemma Init_builds_plan:
  assumes "Enabled cfg" "readOccurrence p cfg now = Inr (Inr oc)"
  shows "Init p cfg now st =
     arm cfg (buildPlan oc now (PreAnnounceSeconds cfg))
       (st\<lparr> isEnableModule := (rangeError oc = None) \<rparr>)"
  using assms by (simp add: Init_def Let_def split: option.splits)

lemma Init_refused:
  assumes "Enabled cfg" "readOccurrence p cfg now = Inl e"
  shows "Init p cfg now st = Inr (st\<lparr> isEnableModule := False \<rparr>)"
  using assms by (simp add: Init_def Let_def)

lemma Init_range_error_falls_through:
  assumes "Enabled cfg" "readOccurrence p cfg now = Inr (Inr oc)" "rangeError oc = Some e"
    and "Init p cfg now st = Inr st'"
  shows "\<not> isEnableModule st'" "worldShutdown st' = False"
    "scheduler st' =
       [\<lparr> delay = diffToPreAnnounce (buildPlan oc now (PreAnnounceSeconds cfg)),
          announce = preAnnounceSeconds (buildPlan oc now (PreAnnounceSeconds cfg)) \<rparr>]"
proof -
  from assms have "arm cfg (buildPlan oc now (PreAnnounceSeconds cfg))
      (st\<lparr> isEnableModule := False \<rparr>) = Inr st'"
    by (simp add: Init_builds_plan [OF assms(1) assms(2)])
  from arm_result [OF this] show "\<not> isEnableModule st'" "worldShutdown st' = False"
    "scheduler st' =
       [\<lparr> delay = diffToPreAnnounce (buildPlan oc now (PreAnnounceSeconds cfg)),
          announce = preAnnounceSeconds (buildPlan oc now (PreAnnounceSeconds cfg)) \<rparr>]"
    by simp_all
qed

lemma buildPlan_diffToShutdown:
  "diffToShutdown (buildPlan oc now configured) = remaining (nextPeriod oc now) now"
  "planResetTime (buildPlan oc now configured) = nextPeriod oc now"
  by (simp_all add: buildPlan_def Let_def)

lemma clampPreAnnounce_oversized:
  assumes "configured > 86400"
  shows "clampPreAnnounce configured = 3600"
  using assms by (simp add: clampPreAnnounce_def DAY_def HOUR_def MINUTE_def)

lemma buildPlan_clamped:
  assumes "clampPreAnnounce a = clampPreAnnounce b"
  shows "buildPlan oc now a = buildPlan oc now b"
  using assms by (simp add: buildPlan_def)

lemma readOccurrence_ignores_pre_announce:
  "readOccurrence p (cfg\<lparr> PreAnnounceSeconds := x \<rparr>) now = readOccurrence p cfg now"
  by (simp add: readOccurrence_def Let_def cong: sum.case_cong prod.case_cong)

lemma arm_ignores_pre_announce:
  "arm (cfg\<lparr> PreAnnounceSeconds := x \<rparr>) pl st = arm cfg pl st"
  by (simp add: arm_def)

section \<open>Facts about the periodic rule\<close>




section \<open>The weekly rule on the target weekday\<close>

text \<open>
  C2. When now falls on the configured weekday (the remainder \<open>daysUntil\<close> is first 0),
  the occurrence is pushed to 7 days ahead exactly when the target time of day, as the
  triple (hour, minute, second) in lexicographic order, is at or before now's time of
  day; equality in all three fields pushes as well. Otherwise it stays on today's date.
  This holds on every platform.
\<close>

theorem weekday_push_iff_target_at_or_before_now:
  assumes "(wd - tm_wday (TimeBreakdown p now) + 7) smod 7 = 0"
  shows "(daysUntil (TimeBreakdown p now) wd rh rm rs = 7 \<longleftrightarrow>
            (uint rh, uint rm, uint rs) \<le>
              (tm_hour (TimeBreakdown p now), tm_min (TimeBreakdown p now),
               tm_sec (TimeBreakdown p now)))
       \<and> (daysUntil (TimeBreakdown p now) wd rh rm rs \<noteq> 7 \<longrightarrow>
            daysUntil (TimeBreakdown p now) wd rh rm rs = 0)
       \<and> GetNextWeekdayTime p now wd rh rm rs =
            mktime p ((TimeBreakdown p now)
              \<lparr> tm_day := tm_day (TimeBreakdown p now)
                   + daysUntil (TimeBreakdown p now) wd rh rm rs,
                 tm_hour := uint rh, tm_min := uint rm, tm_sec := uint rs \<rparr>)"
proof -
  define tl where "tl = TimeBreakdown p now"
  have d: "daysUntil tl wd rh rm rs = (if timePassed tl rh rm rs then 7 else 0)"
    using assms by (simp add: daysUntil_def Let_def tl_def)
  have t: "timePassed tl rh rm rs \<longleftrightarrow>
      (uint rh, uint rm, uint rs) \<le> (tm_hour tl, tm_min tl, tm_sec tl)"
    by (auto simp add: timePassed_def less_eq_prod_def)
  have g: "GetNextWeekdayTime p now wd rh rm rs =
      mktime p (tl\<lparr> tm_day := tm_day tl + daysUntil tl wd rh rm rs,
                 tm_hour := uint rh, tm_min := uint rm, tm_sec := uint rs \<rparr>)"
    by (simp add: GetNextWeekdayTime_def Let_def tl_def)
  show ?thesis
    unfolding tl_def [symmetric] using d t g by simp
qed

theorem weekday_push_witness:
  "(2 - tm_wday (TimeBreakdown (libc utc 1700000000) 1700000000) + 7) smod 7 = 0
   \<and> daysUntil (TimeBreakdown (libc utc 1700000000) 1700000000) 2 22 13 20 = 7
   \<and> GetNextWeekdayTime (libc utc 1700000000) 1700000000 2 22 13 20 = 1700604800
   \<and> daysUntil (TimeBreakdown (libc utc 1700000000) 1700000000) 2 22 13 21 = 0
   \<and> GetNextWeekdayTime (libc utc 1700000000) 1700000000 2 22 13 21 = 1700000001"
proof -
  define p where "p = libc utc 1700000000"
  have t: "TimeBreakdown p 1700000000 =
      \<lparr> tm_sec = 20, tm_min = 13, tm_hour = 22, tm_day = 19675, tm_wday = 2, tm_isdst = 0 \<rparr>"
    by (simp add: p_def utc_def libc_def zoneLocaltime_def zoneMktime_def localAt_def secondsOf_def TimeBreakdown_def)
  have h: "(2 - tm_wday (TimeBreakdown p 1700000000) + 7) smod 7 = 0"
    by (simp add: t smod_int_alt_def)
  have m: "mktime p = zoneMktime utc"
    by (simp add: p_def libc_def)
  have "(2 - tm_wday (TimeBreakdown p 1700000000) + 7) smod 7 = 0
   \<and> daysUntil (TimeBreakdown p 1700000000) 2 22 13 20 = 7
   \<and> GetNextWeekdayTime p 1700000000 2 22 13 20 = 1700604800
   \<and> daysUntil (TimeBreakdown p 1700000000) 2 22 13 21 = 0
   \<and> GetNextWeekdayTime p 1700000000 2 22 13 21 = 1700000001"
    using h weekday_push_iff_target_at_or_before_now [OF h, of 22 13 20]
      weekday_push_iff_target_at_or_before_now [OF h, of 22 13 21]
    by (simp add: t m utc_def zoneMktime_def secondsOf_def less_eq_prod_def)
  then show ?thesis
    unfolding p_def .
qed

section \<open>The periodic rule\<close>







section \<open>The weekly rule: bounds\<close>

text \<open>
  C7, as the code has it. \<open>GetNextWeekdayTime\<close> moves the local date by 0 to 7 days and
  lets \<open>mktime\<close> place it. For a weekday 0 to 6 and a valid target time, when \<open>mktime\<close>
  places the target under the offset \<open>off'\<close> from UTC and \<open>off\<close> is the offset in force at
  now, the timestamp is after now and at most 7 days (604800 seconds) after now, both
  bounds moved by \<open>off - off'\<close>. Where the two offsets are the same it is not before now
  and not more than 7 days after now.
\<close>

theorem weekday_reset_within_a_week:
  assumes "0 \<le> wd" "wd \<le> 6" "rh \<le> 23" "rm \<le> 59" "rs \<le> 59"
    and "TimeBreakdown p now = localAt off dst now"
    and "target = (TimeBreakdown p now)
           \<lparr> tm_day := tm_day (TimeBreakdown p now)
                + daysUntil (TimeBreakdown p now) wd rh rm rs,
             tm_hour := uint rh, tm_min := uint rm, tm_sec := uint rs \<rparr>"
    and "mktime p target = secondsOf target - off'"
  shows "0 \<le> daysUntil (TimeBreakdown p now) wd rh rm rs
       \<and> daysUntil (TimeBreakdown p now) wd rh rm rs \<le> 7
       \<and> now + (off - off') < GetNextWeekdayTime p now wd rh rm rs
       \<and> GetNextWeekdayTime p now wd rh rm rs \<le> now + 7 * 86400 + (off - off')
       \<and> (off' = off \<longrightarrow>
            now \<le> GetNextWeekdayTime p now wd rh rm rs
            \<and> GetNextWeekdayTime p now wd rh rm rs \<le> now + 7 * 86400)"
proof -
  note v = valid_time_uint [OF assms(3-5)]
  obtain d h m s where
    rng: "0 \<le> h" "h < 24" "0 \<le> m" "m < 60" "0 \<le> s" "s < 60"
    and now: "now = d * 86400 + h * 3600 + m * 60 + s - off"
    and la: "localAt off dst now =
       \<lparr> tm_sec = s, tm_min = m, tm_hour = h, tm_day = d, tm_wday = (d + 4) mod 7,
         tm_isdst = dst \<rparr>"
    by (rule localAt_cases)
  define H M S where "H = uint rh" and "M = uint rm" and "S = uint rs"
  note v' = v [folded H_def M_def S_def]
  define w where "w = (d + 4) mod 7"
  have w: "0 \<le> w" "w < 7"
    by (simp_all add: w_def)
  define k where "k = (wd - w + 7) smod 7"
  have "0 \<le> wd - w + 7"
    using assms(1) w by simp
  then have "k = (wd - w + 7) mod 7"
    unfolding k_def by (rule smod_nonneg)
  then have k: "0 \<le> k" "k \<le> 6"
    by simp_all
  define goal where "goal = H * 3600 + M * 60 + S"
  define nowtod where "nowtod = h * 3600 + m * 60 + s"
  have t: "0 \<le> goal" "goal < 86400"
    using v' by (simp_all add: goal_def)
  have n: "0 \<le> nowtod" "nowtod < 86400"
    using rng by (simp_all add: nowtod_def)
  have passed: "timePassed \<lparr> tm_sec = s, tm_min = m, tm_hour = h, tm_day = d, tm_wday = w,
      tm_isdst = dst \<rparr> rh rm rs \<longleftrightarrow> goal \<le> nowtod"
    unfolding goal_def nowtod_def H_def M_def S_def
    by (rule timePassed_iff [OF rng(3-6) assms(4,5)])
  have tl: "TimeBreakdown p now =
       \<lparr> tm_sec = s, tm_min = m, tm_hour = h, tm_day = d, tm_wday = w, tm_isdst = dst \<rparr>"
    by (simp only: assms(6) la w_def)
  define du where "du =
    daysUntil \<lparr> tm_sec = s, tm_min = m, tm_hour = h, tm_day = d, tm_wday = w,
                tm_isdst = dst \<rparr> wd rh rm rs"
  have du: "du = (if k = 0 \<and> goal \<le> nowtod then 7 else k)"
    unfolding du_def daysUntil_def Let_def passed
    by (simp add: k_def)
  have tg: "target =
      \<lparr> tm_sec = S, tm_min = M, tm_hour = H, tm_day = d + du, tm_wday = w, tm_isdst = dst \<rparr>"
    unfolding assms(7) tl du_def H_def M_def S_def by simp
  have "GetNextWeekdayTime p now wd rh rm rs = mktime p target"
    unfolding GetNextWeekdayTime_def Let_def assms(7) ..
  then have g: "GetNextWeekdayTime p now wd rh rm rs = (d + du) * 86400 + goal - off'"
    unfolding assms(8) by (simp add: tg secondsOf_def goal_def)
  have now': "now = d * 86400 + nowtod - off"
    by (simp add: now nowtod_def)
  have "d * 86400 + nowtod < (d + du) * 86400 + goal
      \<and> (d + du) * 86400 + goal \<le> d * 86400 + nowtod + 7 * 86400"
    using k t n unfolding du by (auto simp add: algebra_simps)
  then have "now + (off - off') < (d + du) * 86400 + goal - off'
      \<and> (d + du) * 86400 + goal - off' \<le> now + 7 * 86400 + (off - off')"
    unfolding now' by simp
  then have b: "now + (off - off') < GetNextWeekdayTime p now wd rh rm rs
      \<and> GetNextWeekdayTime p now wd rh rm rs \<le> now + 7 * 86400 + (off - off')"
    by (simp only: g)
  have "0 \<le> du \<and> du \<le> 7"
    using k unfolding du by simp
  then have "0 \<le> daysUntil (TimeBreakdown p now) wd rh rm rs
       \<and> daysUntil (TimeBreakdown p now) wd rh rm rs \<le> 7"
    unfolding tl du_def .
  with b show ?thesis
    by simp
qed

theorem weekday_reset_witness:
  "(0 :: int) \<le> 2 \<and> (2 :: int) \<le> 6 \<and> (4 :: uint8) \<le> 23 \<and> (0 :: uint8) \<le> 59
   \<and> TimeBreakdown (libc newYork 1700000000) 1700000000 = localAt (- 18000) 0 1700000000
   \<and> daysUntil (TimeBreakdown (libc newYork 1700000000) 1700000000) 2 4 0 0 = 7
   \<and> GetNextWeekdayTime (libc newYork 1700000000) 1700000000 2 4 0 0 = 1700557200
   \<and> 1700000000 \<le> GetNextWeekdayTime (libc newYork 1700000000) 1700000000 2 4 0 0
   \<and> GetNextWeekdayTime (libc newYork 1700000000) 1700000000 2 4 0 0
       \<le> 1700000000 + 7 * 86400"
proof -
  define p where "p = libc newYork 1700000000"
  define target where "target =
      \<lparr> tm_sec = 0, tm_min = 0, tm_hour = 4, tm_day = 19682, tm_wday = 2, tm_isdst = 0 \<rparr>"
  have h: "(0 :: int) \<le> 2" "(2 :: int) \<le> 6" "(4 :: uint8) \<le> 23" "(0 :: uint8) \<le> 59"
    by simp_all
  have t: "TimeBreakdown p 1700000000 =
      \<lparr> tm_sec = 20, tm_min = 13, tm_hour = 17, tm_day = 19675, tm_wday = 2, tm_isdst = 0 \<rparr>"
    by (simp add: p_def newYork_def libc_def zoneLocaltime_def zoneMktime_def localAt_def secondsOf_def TimeBreakdown_def)
  have l: "TimeBreakdown p 1700000000 = localAt (- 18000) 0 1700000000"
    unfolding t by (simp add: localAt_def)
  have d: "daysUntil (TimeBreakdown p 1700000000) 2 4 0 0 = 7"
    unfolding t by (simp add: daysUntil_def timePassed_def smod_int_alt_def)
  have g: "target = (TimeBreakdown p 1700000000)
           \<lparr> tm_day := tm_day (TimeBreakdown p 1700000000)
                + daysUntil (TimeBreakdown p 1700000000) 2 4 0 0,
             tm_hour := uint (4 :: uint8), tm_min := uint (0 :: uint8),
             tm_sec := uint (0 :: uint8) \<rparr>"
    unfolding d unfolding t target_def by simp
  have m: "mktime p target = secondsOf target - (- 18000)"
    by (simp add: p_def target_def newYork_def libc_def zoneMktime_def secondsOf_def)
  have v: "GetNextWeekdayTime p 1700000000 2 4 0 0 = 1700557200"
    unfolding GetNextWeekdayTime_def Let_def g [symmetric] m
    by (simp add: target_def secondsOf_def)
  from weekday_reset_within_a_week [OF h(1) h(2) h(3) h(4) h(4) l g m] h l d v
  show ?thesis
    unfolding p_def by simp
qed

text \<open>
  The claim as it is written, for every now, fails where the zone's offset changes
  before the target. In Asia/Almaty at 1709155396 (Thursday 2024-02-29 03:23:16, at
  +06) with the target Thursday 03:23:16, the occurrence is Thursday 2024-03-07
  03:23:16 at +05, which is 608400 seconds after now: 7 days and one hour.
\<close>

theorem weekday_reset_over_a_week:
  "(0 :: int) \<le> 4 \<and> (4 :: int) \<le> 6 \<and> (3 :: uint8) \<le> 23 \<and> (23 :: uint8) \<le> 59
   \<and> (16 :: uint8) \<le> 59
   \<and> TimeBreakdown (libc almaty 1709155396) 1709155396 =
       \<lparr> tm_sec = 16, tm_min = 23, tm_hour = 3, tm_day = 19782, tm_wday = 4, tm_isdst = 0 \<rparr>
   \<and> GetNextWeekdayTime (libc almaty 1709155396) 1709155396 4 3 23 16 = 1709155396 + 608400
   \<and> \<not> GetNextWeekdayTime (libc almaty 1709155396) 1709155396 4 3 23 16
         \<le> 1709155396 + 7 * 86400"
  by (simp add: GetNextWeekdayTime_def daysUntil_def timePassed_def smod_int_alt_def
      almaty_def libc_def zoneLocaltime_def zoneMktime_def localAt_def secondsOf_def TimeBreakdown_def Let_def)

text \<open>
  Where \<open>mktime\<close> fails, its -1 is returned as it is. In America/Nuuk at 1679188681
  (Saturday 2023-03-18 22:18:01, at -03) with the target Saturday 22:18:01, the date is
  moved to 2023-03-25, and that day has no local time 22:18:01: the zone went from -03
  to -02 at 22:00:00. The bounds above are stated for the targets \<open>mktime\<close> places.
\<close>

theorem weekday_reset_mktime_fails:
  "(0 :: int) \<le> 6 \<and> (6 :: int) \<le> 6 \<and> (22 :: uint8) \<le> 23 \<and> (18 :: uint8) \<le> 59
   \<and> (1 :: uint8) \<le> 59
   \<and> TimeBreakdown (libc nuuk 1679188681) 1679188681 =
       \<lparr> tm_sec = 1, tm_min = 18, tm_hour = 22, tm_day = 19434, tm_wday = 6, tm_isdst = 0 \<rparr>
   \<and> GetNextWeekdayTime (libc nuuk 1679188681) 1679188681 6 22 18 1 = - 1
   \<and> GetNextWeekdayTime (libc nuuk 1679188681) 1679188681 6 22 18 1 < 1679188681"
  by (simp add: GetNextWeekdayTime_def daysUntil_def timePassed_def smod_int_alt_def
      nuuk_def libc_def zoneLocaltime_def zoneMktime_def localAt_def secondsOf_def TimeBreakdown_def Let_def)

section \<open>Starting the events: where the conversion must succeed\<close>

text \<open>
  C10. \<open>StartPersistentGameEvents\<close> dereferences the result of \<open>StringTo<uint32>\<close> with
  no test. When every non-empty token of the space-separated \<open>StartEvents\<close> string
  converts to a \<open>uint32\<close>, the empty optional is never dereferenced; when some non-empty
  token does not convert, the function does not return, and the first such token that
  the loop reaches is where the empty optional is dereferenced. It does return, having
  started the events of the tokens in order, when every event converts and lies within
  the event table.
\<close>

theorem StartPersistentGameEvents_total_iff_tokens_parse:
  "((\<forall>token \<in> set (Tokenize eventList CHR '' '' False).
        token \<noteq> [] \<longrightarrow> (StringTo token :: uint32 option) \<noteq> None) \<longrightarrow>
      StartPersistentGameEvents eventList st \<noteq> Inl EmptyOptional)
   \<and> ((\<exists>token \<in> set (Tokenize eventList CHR '' '' False).
        token \<noteq> [] \<and> (StringTo token :: uint32 option) = None) \<longrightarrow>
      (\<exists>f. StartPersistentGameEvents eventList st = Inl f))
   \<and> ((\<forall>token \<in> set (Tokenize eventList CHR '' '' False). token \<noteq> [] \<longrightarrow>
        (\<exists>eventId. StringTo token = Some eventId
           \<and> uint (eventId :: uint32) < int (eventCount st))) \<longrightarrow>
      StartPersistentGameEvents eventList st =
        Inr (st\<lparr> startedEvents := startedEvents st @
              map (\<lambda>token. ucast (the (StringTo token :: uint32 option)))
                (filter (\<lambda>token. token \<noteq> []) (Tokenize eventList CHR '' '' False)) \<rparr>))
   \<and> (\<forall>before bad after.
        Tokenize eventList CHR '' '' False = before @ bad # after
        \<and> bad \<noteq> [] \<and> (StringTo bad :: uint32 option) = None
        \<and> (\<forall>token \<in> set before. token \<noteq> [] \<longrightarrow>
             (\<exists>eventId. StringTo token = Some eventId
                \<and> uint (eventId :: uint32) < int (eventCount st))) \<longrightarrow>
        StartPersistentGameEvents eventList st = Inl EmptyOptional)"
proof (intro conjI impI allI)
  assume "\<forall>token \<in> set (Tokenize eventList CHR '' '' False).
        token \<noteq> [] \<longrightarrow> (StringTo token :: uint32 option) \<noteq> None"
  then show "StartPersistentGameEvents eventList st \<noteq> Inl EmptyOptional"
    unfolding StartPersistentGameEvents_def by (rule startEvents_parsed)
next
  assume "\<exists>token \<in> set (Tokenize eventList CHR '' '' False).
        token \<noteq> [] \<and> (StringTo token :: uint32 option) = None"
  then show "\<exists>f. StartPersistentGameEvents eventList st = Inl f"
    unfolding StartPersistentGameEvents_def by (rule startEvents_unparsed)
next
  assume "\<forall>token \<in> set (Tokenize eventList CHR '' '' False). token \<noteq> [] \<longrightarrow>
        (\<exists>eventId. StringTo token = Some eventId
           \<and> uint (eventId :: uint32) < int (eventCount st))"
  then show "StartPersistentGameEvents eventList st =
        Inr (st\<lparr> startedEvents := startedEvents st @
              map (\<lambda>token. ucast (the (StringTo token :: uint32 option)))
                (filter (\<lambda>token. token \<noteq> []) (Tokenize eventList CHR '' '' False)) \<rparr>)"
    unfolding StartPersistentGameEvents_def by (rule startEvents_startable)
next
  fix before bad after
  assume a: "Tokenize eventList CHR '' '' False = before @ bad # after
        \<and> bad \<noteq> [] \<and> (StringTo bad :: uint32 option) = None
        \<and> (\<forall>token \<in> set before. token \<noteq> [] \<longrightarrow>
             (\<exists>eventId. StringTo token = Some eventId
                \<and> uint (eventId :: uint32) < int (eventCount st)))"
  then have "startEvents (before @ bad # after) st = Inl EmptyOptional"
    by (intro startEvents_first_unparsed) simp_all
  with a show "StartPersistentGameEvents eventList st = Inl EmptyOptional"
    unfolding StartPersistentGameEvents_def by simp
qed

theorem StartPersistentGameEvents_witness:
  "StartPersistentGameEvents ''12 x''
       \<lparr> isEnableModule = False, shutdownMask = SHUTDOWN_MASK_IDLE, scheduler = [],
         worldShutdown = False, eventCount = 100, startedEvents = [] \<rparr> = Inl EmptyOptional
   \<and> StartPersistentGameEvents ''12  34''
       \<lparr> isEnableModule = False, shutdownMask = SHUTDOWN_MASK_IDLE, scheduler = [],
         worldShutdown = False, eventCount = 100, startedEvents = [] \<rparr> =
     Inr \<lparr> isEnableModule = False, shutdownMask = SHUTDOWN_MASK_IDLE, scheduler = [],
           worldShutdown = False, eventCount = 100, startedEvents = [12, 34] \<rparr>"
proof -
  define st where "st =
       \<lparr> isEnableModule = False, shutdownMask = SHUTDOWN_MASK_IDLE, scheduler = [],
         worldShutdown = False, eventCount = 100, startedEvents = [] \<rparr>"
  have t: "Tokenize ''12 x'' CHR '' '' False = [''12''] @ ''x'' # []"
    "Tokenize ''12  34'' CHR '' '' False = [''12'', ''34'']"
    by (simp_all add: Tokenize_def)
  have s: "(StringTo ''12'' :: uint32 option) = Some 12"
    "(StringTo ''34'' :: uint32 option) = Some 34"
    "(StringTo ''x'' :: uint32 option) = None"
    by (simp_all add: StringTo_def isDigit_def)
  have c: "eventCount st = 100"
    by (simp add: st_def)
  have bad: "Tokenize ''12 x'' CHR '' '' False = [''12''] @ ''x'' # []
        \<and> ''x'' \<noteq> [] \<and> (StringTo ''x'' :: uint32 option) = None
        \<and> (\<forall>token \<in> set [''12'']. token \<noteq> [] \<longrightarrow>
             (\<exists>eventId. StringTo token = Some eventId
                \<and> uint (eventId :: uint32) < int (eventCount st)))"
    by (simp add: t s c)
  have good: "\<forall>token \<in> set (Tokenize ''12  34'' CHR '' '' False). token \<noteq> [] \<longrightarrow>
        (\<exists>eventId. StringTo token = Some eventId
           \<and> uint (eventId :: uint32) < int (eventCount st))"
    unfolding t by (simp add: s c)
  note total = StartPersistentGameEvents_total_iff_tokens_parse
  have a: "StartPersistentGameEvents ''12 x'' st = Inl EmptyOptional"
    by (rule total [THEN conjunct2, THEN conjunct2, THEN conjunct2, THEN spec, THEN spec,
          THEN spec, THEN mp, OF bad])
  have b: "StartPersistentGameEvents ''12  34'' st =
        Inr (st\<lparr> startedEvents := startedEvents st @
              map (\<lambda>token. ucast (the (StringTo token :: uint32 option)))
                (filter (\<lambda>token. token \<noteq> []) (Tokenize ''12  34'' CHR '' '' False)) \<rparr>)"
    by (rule total [THEN conjunct2, THEN conjunct2, THEN conjunct1, THEN mp, OF good])
  from a b show ?thesis
    unfolding t unfolding st_def by (simp add: s)
qed

text \<open>
  The event is handed to \<open>StartEvent\<close> cut to 16 bits, and the table is then indexed
  with all 32: with a table of 100 entries the token 4000000000 converts and
  \<open>events[4000000000]\<close> is past the end; with a table of 70000 entries the token 65548
  starts event 12.
\<close>

theorem StartPersistentGameEvents_outside_table:
  "StartPersistentGameEvents ''4000000000''
       \<lparr> isEnableModule = False, shutdownMask = SHUTDOWN_MASK_IDLE, scheduler = [],
         worldShutdown = False, eventCount = 100, startedEvents = [] \<rparr> = Inl OutOfRange
   \<and> StartPersistentGameEvents ''65548''
       \<lparr> isEnableModule = False, shutdownMask = SHUTDOWN_MASK_IDLE, scheduler = [],
         worldShutdown = False, eventCount = 70000, startedEvents = [] \<rparr> =
     Inr \<lparr> isEnableModule = False, shutdownMask = SHUTDOWN_MASK_IDLE, scheduler = [],
           worldShutdown = False, eventCount = 70000, startedEvents = [12] \<rparr>"
  by (simp add: StartPersistentGameEvents_def Tokenize_def StringTo_def isDigit_def
      deref_def)

section \<open>The plan\<close>

text \<open>
  C9. Every plan the builder emits has \<open>preAnnounceSeconds\<close> (the effective lead time)
  at most \<open>diffToShutdown\<close> (the seconds until shutdown), whatever the occurrence, the
  time and the configured lead time.
\<close>

theorem plan_pre_announce_within_remaining:
  "preAnnounceSeconds (buildPlan oc now configured)
     \<le> diffToShutdown (buildPlan oc now configured)"
  by (simp add: buildPlan_def Let_def not_less)

theorem plan_pre_announce_witness:
  "preAnnounceSeconds (buildPlan
       \<lparr> weekday = -1, restartDays = 1, restartHour = 23, restartMinute = 0,
         restartSecond = 0, nextResetTime = 1700002800 \<rparr> 1700000000 3600) = 2800
   \<and> diffToShutdown (buildPlan
       \<lparr> weekday = -1, restartDays = 1, restartHour = 23, restartMinute = 0,
         restartSecond = 0, nextResetTime = 1700002800 \<rparr> 1700000000 3600) = 2800"
  using plan_pre_announce_within_remaining [of
      "\<lparr> weekday = -1, restartDays = 1, restartHour = 23, restartMinute = 0,
         restartSecond = 0, nextResetTime = 1700002800 \<rparr>" 1700000000 3600]
  by (simp add: buildPlan_def nextPeriod_def remaining_def clampPreAnnounce_def Let_def
        WEEK_def DAY_def HOUR_def MINUTE_def)

text \<open>
  C3. When \<open>Init\<close> builds a plan whose \<open>diffToShutdown\<close> is strictly less than
  \<open>preAnnounceSeconds\<close> (the lead time as it stands at the comparison, which is the
  configured one whenever that is at most a day), the plan's effective lead time is
  \<open>diffToShutdown\<close> and the pre-announce is due 1 second from now. That is the task
  \<open>Init\<close> schedules: whenever it returns, and it does return when the module is enabled
  and every configured event converts and lies within the event table.
\<close>

theorem short_runway_announces_at_once:
  assumes "readOccurrence p cfg now = Inr (Inr oc)"
    and "pl = buildPlan oc now (PreAnnounceSeconds cfg)"
    and "diffToShutdown pl < clampPreAnnounce (PreAnnounceSeconds cfg)"
  shows "preAnnounceSeconds pl = diffToShutdown pl
       \<and> diffToPreAnnounce pl = 1
       \<and> timeToPreAnnounce pl = word_of_int now + 1
       \<and> (\<forall>st st'. Enabled cfg \<and> Init p cfg now st = Inr st' \<longrightarrow>
             scheduler st' = [\<lparr> delay = 1, announce = diffToShutdown pl \<rparr>])
       \<and> (\<forall>st. Enabled cfg
             \<and> (\<forall>token \<in> set (Tokenize (StartEvents cfg) CHR '' '' False). token \<noteq> [] \<longrightarrow>
                  (\<exists>eventId. StringTo token = Some eventId
                     \<and> uint (eventId :: uint32) < int (eventCount st))) \<longrightarrow>
             (\<exists>st'. Init p cfg now st = Inr st'
                \<and> scheduler st' = [\<lparr> delay = 1, announce = diffToShutdown pl \<rparr>]))"
proof -
  have d: "diffToShutdown pl = remaining (nextPeriod oc now) now"
    unfolding assms(2) by (rule buildPlan_diffToShutdown)
  with assms(3) have lt: "remaining (nextPeriod oc now) now
      < clampPreAnnounce (PreAnnounceSeconds cfg)"
    by simp
  have f: "preAnnounceSeconds pl = diffToShutdown pl" "diffToPreAnnounce pl = 1"
    "timeToPreAnnounce pl = word_of_int now + 1"
    unfolding assms(2) using lt by (simp_all add: buildPlan_def Let_def)
  have s: "scheduler st' = [\<lparr> delay = 1, announce = diffToShutdown pl \<rparr>]"
    if "Enabled cfg" "Init p cfg now st = Inr st'" for st st'
  proof -
    from that have "arm cfg pl (st\<lparr> isEnableModule := (rangeError oc = None) \<rparr>) = Inr st'"
      by (simp add: Init_builds_plan [OF that(1) assms(1)] assms(2))
    from arm_result(1) [OF this] show ?thesis
      by (simp add: f)
  qed
  have r: "\<exists>st'. Init p cfg now st = Inr st'
        \<and> scheduler st' = [\<lparr> delay = 1, announce = diffToShutdown pl \<rparr>]"
    if en: "Enabled cfg"
      and ev: "\<forall>token \<in> set (Tokenize (StartEvents cfg) CHR '' '' False). token \<noteq> [] \<longrightarrow>
          (\<exists>eventId. StringTo token = Some eventId
             \<and> uint (eventId :: uint32) < int (eventCount st))" for st
  proof -
    define st0 where "st0 = st\<lparr> isEnableModule := (rangeError oc = None) \<rparr>"
    have "eventCount st0 = eventCount st"
      by (simp add: st0_def)
    with ev have "\<forall>token \<in> set (Tokenize (StartEvents cfg) CHR '' '' False). token \<noteq> [] \<longrightarrow>
        (\<exists>eventId. StringTo token = Some eventId
           \<and> uint (eventId :: uint32) < int (eventCount st0))"
      by simp
    from arm_returns [OF this, of pl] obtain st' where a: "arm cfg pl st0 = Inr st'"
      by blast
    then have i: "Init p cfg now st = Inr st'"
      by (simp add: Init_builds_plan [OF en assms(1)] assms(2) st0_def)
    from s [OF en i] i show ?thesis
      by blast
  qed
  from f s r show ?thesis
    by blast
qed

theorem short_runway_witness:
  "readOccurrence (libc utc 1700000000)
       \<lparr> Enabled = True, Time = ''23:00:00'', Weekday = -1, EveryDays = 1,
         PreAnnounceSeconds = 3600, Action = ''restart'', StartEvents = ''12'' \<rparr> 1700000000 =
     Inr (Inr \<lparr> weekday = -1, restartDays = 1, restartHour = 23, restartMinute = 0,
         restartSecond = 0, nextResetTime = 1700002800 \<rparr>)
   \<and> diffToShutdown (buildPlan
       \<lparr> weekday = -1, restartDays = 1, restartHour = 23, restartMinute = 0,
         restartSecond = 0, nextResetTime = 1700002800 \<rparr> 1700000000 3600) < clampPreAnnounce 3600
   \<and> preAnnounceSeconds (buildPlan
       \<lparr> weekday = -1, restartDays = 1, restartHour = 23, restartMinute = 0,
         restartSecond = 0, nextResetTime = 1700002800 \<rparr> 1700000000 3600) = 2800
   \<and> diffToPreAnnounce (buildPlan
       \<lparr> weekday = -1, restartDays = 1, restartHour = 23, restartMinute = 0,
         restartSecond = 0, nextResetTime = 1700002800 \<rparr> 1700000000 3600) = 1
   \<and> timeToPreAnnounce (buildPlan
       \<lparr> weekday = -1, restartDays = 1, restartHour = 23, restartMinute = 0,
         restartSecond = 0, nextResetTime = 1700002800 \<rparr> 1700000000 3600) = 1700000001
   \<and> Init (libc utc 1700000000)
       \<lparr> Enabled = True, Time = ''23:00:00'', Weekday = -1, EveryDays = 1,
         PreAnnounceSeconds = 3600, Action = ''restart'', StartEvents = ''12'' \<rparr> 1700000000
       \<lparr> isEnableModule = True, shutdownMask = SHUTDOWN_MASK_IDLE,
         scheduler = [\<lparr> delay = 77, announce = 88 \<rparr>], worldShutdown = True,
         eventCount = 100, startedEvents = [] \<rparr> =
     Inr \<lparr> isEnableModule = True, shutdownMask = SHUTDOWN_MASK_RESTART,
           scheduler = [\<lparr> delay = 1, announce = 2800 \<rparr>], worldShutdown = False,
           eventCount = 100, startedEvents = [12] \<rparr>"
proof -
  define cfg where "cfg =
       \<lparr> Enabled = True, Time = ''23:00:00'', Weekday = -1, EveryDays = 1,
         PreAnnounceSeconds = 3600, Action = ''restart'', StartEvents = ''12'' \<rparr>"
  define oc where "oc =
       \<lparr> weekday = -1, restartDays = 1, restartHour = 23, restartMinute = 0,
         restartSecond = 0, nextResetTime = 1700002800 \<rparr>"
  define st where "st =
       \<lparr> isEnableModule = True, shutdownMask = SHUTDOWN_MASK_IDLE,
         scheduler = [\<lparr> delay = 77, announce = 88 \<rparr>], worldShutdown = True,
         eventCount = 100, startedEvents = [] \<rparr>"
  have r: "readOccurrence (libc utc 1700000000) cfg 1700000000 = Inr (Inr oc)"
    by (simp add: cfg_def oc_def readOccurrence_def Tokenize_def CheckTime_def StringTo_def isDigit_def deref_def
        GetNextResetTime_def utc_def libc_def zoneLocaltime_def zoneMktime_def localAt_def secondsOf_def TimeBreakdown_def
        Let_def DAY_def HOUR_def MINUTE_def)
  have b: "buildPlan oc 1700000000 (PreAnnounceSeconds cfg) =
      \<lparr> planResetTime = 1700002800, timeToPreAnnounce = 1700000001, diffToShutdown = 2800,
        diffToPreAnnounce = 1, preAnnounceSeconds = 2800 \<rparr>"
    by (simp add: cfg_def oc_def buildPlan_def nextPeriod_def remaining_def clampPreAnnounce_def Let_def
        WEEK_def DAY_def HOUR_def MINUTE_def)
  have c: "clampPreAnnounce (PreAnnounceSeconds cfg) = 3600"
    by (simp add: cfg_def clampPreAnnounce_def DAY_def HOUR_def MINUTE_def)
  have h: "diffToShutdown (buildPlan oc 1700000000 (PreAnnounceSeconds cfg))
      < clampPreAnnounce (PreAnnounceSeconds cfg)"
    unfolding b c by simp
  have q: "PreAnnounceSeconds cfg = 3600"
    by (simp add: cfg_def)
  have en: "Enabled cfg"
    by (simp add: cfg_def)
  have ev: "\<forall>token \<in> set (Tokenize (StartEvents cfg) CHR '' '' False). token \<noteq> [] \<longrightarrow>
      (\<exists>eventId. StringTo token = Some eventId
         \<and> uint (eventId :: uint32) < int (eventCount st))"
    by (simp add: cfg_def st_def Tokenize_def StringTo_def isDigit_def)
  note sr = short_runway_announces_at_once [OF r refl h]
  from sr [THEN conjunct2, THEN conjunct2, THEN conjunct2, THEN conjunct2, THEN spec,
      THEN mp, OF conjI [OF en ev]]
  obtain st' where i: "Init (libc utc 1700000000) cfg 1700000000 st = Inr st'"
    and sch: "scheduler st' = [\<lparr> delay = 1, announce = 2800 \<rparr>]"
    unfolding b by auto
  have "Init (libc utc 1700000000) cfg 1700000000 st =
     Inr \<lparr> isEnableModule = True, shutdownMask = SHUTDOWN_MASK_RESTART,
           scheduler = [\<lparr> delay = 1, announce = 2800 \<rparr>], worldShutdown = False,
           eventCount = 100, startedEvents = [12] \<rparr>"
    unfolding Init_builds_plan [OF en r] b
    by (simp add: cfg_def oc_def st_def rangeError_def arm_def StartPersistentGameEvents_def
        Tokenize_def StringTo_def isDigit_def deref_def Let_def)
  with sr r h b c i sch show ?thesis
    unfolding q unfolding cfg_def oc_def st_def by simp
qed

text \<open>
  C4. When the occurrence \<open>Init\<close> computed is less than 10 seconds away, the plan's
  shutdown time is that occurrence plus exactly one period, 7 days in weekly mode and
  \<open>EveryDays\<close> days in periodic mode, and the seconds until shutdown are those from now
  to the moved occurrence.
\<close>

theorem near_occurrence_moves_one_period:
  assumes "readOccurrence p cfg now = Inr (Inr oc)"
    and "remaining (nextResetTime oc) now < 10"
  shows "planResetTime (buildPlan oc now configured) =
           nextResetTime oc +
             (if 0 \<le> Weekday cfg \<and> Weekday cfg \<le> 6 then 7 * 86400
              else 86400 * ucast (EveryDays cfg))
       \<and> diffToShutdown (buildPlan oc now configured) =
           remaining (planResetTime (buildPlan oc now configured)) now"
proof -
  note f = readOccurrence_fields [OF assms(1)]
  have pr: "planResetTime (buildPlan oc now configured) = nextPeriod oc now"
    and d: "diffToShutdown (buildPlan oc now configured) = remaining (nextPeriod oc now) now"
    by (simp_all add: buildPlan_diffToShutdown)
  have near: "nextPeriod oc now =
      (if 0 \<le> Weekday cfg \<and> Weekday cfg \<le> 6 then nextResetTime oc + 604800
       else nextResetTime oc + ucast (86400 * EveryDays cfg :: uint32))"
    using assms(2)
    by (simp add: nextPeriod_def f(1) f(2) WEEK_def DAY_def HOUR_def MINUTE_def)
  have "nextPeriod oc now =
      nextResetTime oc +
        (if 0 \<le> Weekday cfg \<and> Weekday cfg \<le> 6 then 7 * 86400
         else 86400 * ucast (EveryDays cfg))"
  proof (cases "0 \<le> Weekday cfg \<and> Weekday cfg \<le> 6")
    case True
    then show ?thesis
      by (simp add: near)
  next
    case periodic: False
    with f(3) have "EveryDays cfg \<le> 365"
      by simp
    then have u: "(ucast (86400 * EveryDays cfg) :: uint64) = 86400 * ucast (EveryDays cfg)"
      by (rule ucast_days)
    from periodic have "(0 \<le> Weekday cfg \<and> Weekday cfg \<le> 6) = False"
      by simp
    then show ?thesis
      by (simp only: near u if_False)
  qed
  with pr d show ?thesis
    by simp
qed

theorem near_occurrence_witness:
  "readOccurrence (libc utc 1700000000)
       \<lparr> Enabled = True, Time = ''22:13:25'', Weekday = -1, EveryDays = 1,
         PreAnnounceSeconds = 3600, Action = ''restart'', StartEvents = ''12'' \<rparr> 1700000000 =
     Inr (Inr \<lparr> weekday = -1, restartDays = 1, restartHour = 22, restartMinute = 13,
         restartSecond = 25, nextResetTime = 1700000005 \<rparr>)
   \<and> remaining 1700000005 1700000000 = 5
   \<and> planResetTime (buildPlan
       \<lparr> weekday = -1, restartDays = 1, restartHour = 22, restartMinute = 13,
         restartSecond = 25, nextResetTime = 1700000005 \<rparr> 1700000000 3600) = 1700000005 + 86400
   \<and> diffToShutdown (buildPlan
       \<lparr> weekday = -1, restartDays = 1, restartHour = 22, restartMinute = 13,
         restartSecond = 25, nextResetTime = 1700000005 \<rparr> 1700000000 3600) = 86405"
proof -
  define cfg where "cfg =
       \<lparr> Enabled = True, Time = ''22:13:25'', Weekday = -1, EveryDays = 1,
         PreAnnounceSeconds = 3600, Action = ''restart'', StartEvents = ''12'' \<rparr>"
  define oc where "oc =
       \<lparr> weekday = -1, restartDays = 1, restartHour = 22, restartMinute = 13,
         restartSecond = 25, nextResetTime = 1700000005 \<rparr>"
  have r: "readOccurrence (libc utc 1700000000) cfg 1700000000 = Inr (Inr oc)"
    by (simp add: cfg_def oc_def readOccurrence_def Tokenize_def CheckTime_def StringTo_def isDigit_def deref_def
        GetNextResetTime_def utc_def libc_def zoneLocaltime_def zoneMktime_def localAt_def secondsOf_def TimeBreakdown_def
        Let_def DAY_def HOUR_def MINUTE_def)
  have m: "remaining 1700000005 1700000000 = 5"
    by (simp add: remaining_def)
  then have h: "remaining (nextResetTime oc) 1700000000 < 10"
    by (simp add: oc_def)
  have e: "EveryDays cfg = 1" "\<not> (0 \<le> Weekday cfg \<and> Weekday cfg \<le> 6)"
    "nextResetTime oc = 1700000005"
    by (simp_all add: cfg_def oc_def)
  have "remaining 1700086405 1700000000 = 86405"
    by (simp add: remaining_def)
  with near_occurrence_moves_one_period [OF r h, of 3600] r m
  show ?thesis
    unfolding e unfolding cfg_def oc_def by simp
qed

section \<open>The lead time above one day\<close>

text \<open>
  C8. A configured \<open>PreAnnounce.Seconds\<close> above 86400 is replaced by 3600: \<open>Init\<close> does
  exactly what it does for a configured 3600, so the plan's lead time is 3600 unless
  fewer seconds than that remain until the shutdown. It is no error: a configuration
  that passes the other checks leaves the module enabled with the pre-announce task of
  the plan for 3600 scheduled.
\<close>

theorem oversized_pre_announce_becomes_one_hour:
  assumes "PreAnnounceSeconds cfg > 86400"
  shows "clampPreAnnounce (PreAnnounceSeconds cfg) = 3600
       \<and> Init p cfg now st = Init p (cfg\<lparr> PreAnnounceSeconds := 3600 \<rparr>) now st
       \<and> (\<forall>oc. preAnnounceSeconds (buildPlan oc now (PreAnnounceSeconds cfg)) =
             (if diffToShutdown (buildPlan oc now (PreAnnounceSeconds cfg)) < 3600
              then diffToShutdown (buildPlan oc now (PreAnnounceSeconds cfg)) else 3600))
       \<and> (\<forall>oc st'. Enabled cfg \<and> readOccurrence p cfg now = Inr (Inr oc)
               \<and> rangeError oc = None \<and> Init p cfg now st = Inr st' \<longrightarrow>
             isEnableModule st'
             \<and> scheduler st' = [\<lparr> delay = diffToPreAnnounce (buildPlan oc now 3600),
                                  announce = preAnnounceSeconds (buildPlan oc now 3600) \<rparr>])"
proof -
  have c: "clampPreAnnounce (PreAnnounceSeconds cfg) = 3600"
    using assms by (rule clampPreAnnounce_oversized)
  have "clampPreAnnounce (PreAnnounceSeconds cfg) = clampPreAnnounce 3600"
    unfolding c by (simp add: clampPreAnnounce_def DAY_def HOUR_def MINUTE_def)
  then have b: "buildPlan oc now (PreAnnounceSeconds cfg) = buildPlan oc now 3600" for oc
    by (rule buildPlan_clamped)
  have i: "Init p cfg now st = Init p (cfg\<lparr> PreAnnounceSeconds := 3600 \<rparr>) now st"
    unfolding Init_def readOccurrence_ignores_pre_announce arm_ignores_pre_announce
    by (simp add: b Let_def cong: sum.case_cong)
  have "isEnableModule st'
      \<and> scheduler st' = [\<lparr> delay = diffToPreAnnounce (buildPlan oc now 3600),
                           announce = preAnnounceSeconds (buildPlan oc now 3600) \<rparr>]"
    if "Enabled cfg" "readOccurrence p cfg now = Inr (Inr oc)" "rangeError oc = None"
      "Init p cfg now st = Inr st'" for oc st'
  proof -
    from that have "arm cfg (buildPlan oc now 3600) (st\<lparr> isEnableModule := True \<rparr>) = Inr st'"
      by (simp add: Init_builds_plan [OF that(1) that(2)] b)
    from arm_result [OF this] show ?thesis
      by simp
  qed
  moreover have "preAnnounceSeconds (buildPlan oc now (PreAnnounceSeconds cfg)) =
      (if diffToShutdown (buildPlan oc now (PreAnnounceSeconds cfg)) < 3600
       then diffToShutdown (buildPlan oc now (PreAnnounceSeconds cfg)) else 3600)" for oc
    by (simp add: buildPlan_def Let_def c)
  ultimately show ?thesis
    using c i by blast
qed

theorem oversized_pre_announce_witness:
  "(86400 :: uint32) < 90000
   \<and> clampPreAnnounce 90000 = 3600
   \<and> Init (libc utc 1700000000)
       \<lparr> Enabled = True, Time = ''04:00:00'', Weekday = -1, EveryDays = 1,
         PreAnnounceSeconds = 90000, Action = ''restart'', StartEvents = ''12'' \<rparr> 1700000000
       \<lparr> isEnableModule = False, shutdownMask = SHUTDOWN_MASK_IDLE, scheduler = [],
         worldShutdown = False, eventCount = 100, startedEvents = [] \<rparr> =
     Inr \<lparr> isEnableModule = True, shutdownMask = SHUTDOWN_MASK_RESTART,
           scheduler = [\<lparr> delay = 17200, announce = 3600 \<rparr>], worldShutdown = False,
           eventCount = 100, startedEvents = [12] \<rparr>"
proof -
  define cfg where "cfg =
       \<lparr> Enabled = True, Time = ''04:00:00'', Weekday = -1, EveryDays = 1,
         PreAnnounceSeconds = 90000, Action = ''restart'', StartEvents = ''12'' \<rparr>"
  have h: "PreAnnounceSeconds cfg > 86400"
    by (simp add: cfg_def)
  have i: "Init (libc utc 1700000000) (cfg\<lparr> PreAnnounceSeconds := 3600 \<rparr>) 1700000000
       \<lparr> isEnableModule = False, shutdownMask = SHUTDOWN_MASK_IDLE, scheduler = [],
         worldShutdown = False, eventCount = 100, startedEvents = [] \<rparr> =
     Inr \<lparr> isEnableModule = True, shutdownMask = SHUTDOWN_MASK_RESTART,
           scheduler = [\<lparr> delay = 17200, announce = 3600 \<rparr>], worldShutdown = False,
           eventCount = 100, startedEvents = [12] \<rparr>"
    by (simp add: cfg_def Init_def rangeError_def arm_def StartPersistentGameEvents_def
        readOccurrence_def Tokenize_def CheckTime_def StringTo_def isDigit_def deref_def
        GetNextResetTime_def utc_def libc_def zoneLocaltime_def zoneMktime_def localAt_def secondsOf_def TimeBreakdown_def
        Let_def DAY_def HOUR_def MINUTE_def
        buildPlan_def nextPeriod_def remaining_def clampPreAnnounce_def WEEK_def)
  have q: "PreAnnounceSeconds cfg = 90000"
    by (simp add: cfg_def)
  from oversized_pre_announce_becomes_one_hour [OF h, of "libc utc 1700000000" 1700000000
      "\<lparr> isEnableModule = False, shutdownMask = SHUTDOWN_MASK_IDLE, scheduler = [],
         worldShutdown = False, eventCount = 100, startedEvents = [] \<rparr>"] i
  show ?thesis
    unfolding q unfolding cfg_def by simp
qed

section \<open>A range error does not stop Init\<close>

text \<open>
  C1. The claim is that a validation failure leaves nothing armed and nothing cancelled.
  The source returns after a malformed time string and after an \<open>EveryDays\<close> out of
  range in periodic mode, but the range checks of lines 143 to 162 only clear
  \<open>_isEnableModule\<close> and fall through. With \<open>Time = "25:00:00"\<close> at 1700000000
  (2023-11-14 22:13:20 UTC), \<open>Init\<close> disables the module and still cancels the pending
  task, cancels the world's shutdown, starts event 12 and schedules a new pre-announce
  task.
\<close>

theorem Init_hour_out_of_range_still_arms:
  "Init (libc utc 1700000000)
       \<lparr> Enabled = True, Time = ''25:00:00'', Weekday = -1, EveryDays = 1,
         PreAnnounceSeconds = 3600, Action = ''restart'', StartEvents = ''12'' \<rparr> 1700000000
       \<lparr> isEnableModule = True, shutdownMask = SHUTDOWN_MASK_IDLE,
         scheduler = [\<lparr> delay = 77, announce = 88 \<rparr>], worldShutdown = True,
         eventCount = 100, startedEvents = [] \<rparr> =
     Inr \<lparr> isEnableModule = False, shutdownMask = SHUTDOWN_MASK_RESTART,
           scheduler = [\<lparr> delay = 6400, announce = 3600 \<rparr>], worldShutdown = False,
           eventCount = 100, startedEvents = [12] \<rparr>"
  by (simp add: Init_def rangeError_def arm_def StartPersistentGameEvents_def
      readOccurrence_def Tokenize_def CheckTime_def StringTo_def isDigit_def deref_def
      GetNextResetTime_def utc_def libc_def zoneLocaltime_def zoneMktime_def localAt_def secondsOf_def TimeBreakdown_def
      Let_def DAY_def HOUR_def MINUTE_def
      buildPlan_def nextPeriod_def remaining_def clampPreAnnounce_def WEEK_def)

end
